theory Spec2Isabelle
  imports Complex_Main "HOL-Library.Sublist" "HOL-Library.AList"
begin

section \<open>Python strings\<close>

text \<open>
  A Python \<open>str\<close> is modelled as a \<open>string\<close> of ASCII characters. \<open>s.lower()\<close> maps the
  letters A to Z to a to z and leaves every other character as it is; \<open>t in s\<close> on two
  strings is contiguous containment, the library's \<open>sublist\<close>; \<open>sep.join(xs)\<close> puts the
  separator between neighbouring elements.
\<close>

definition lower_char :: "char \<Rightarrow> char" where
  "lower_char c =
     (case map_of (zip ''ABCDEFGHIJKLMNOPQRSTUVWXYZ'' ''abcdefghijklmnopqrstuvwxyz'') c of
        Some l \<Rightarrow> l
      | None \<Rightarrow> c)"

definition lower :: "string \<Rightarrow> string" where
  "lower s = map lower_char s"

definition str_in :: "string \<Rightarrow> string \<Rightarrow> bool" where
  "str_in t s = sublist t s"

fun join :: "string \<Rightarrow> string list \<Rightarrow> string" where
  "join sep [] = []"
| "join sep [x] = x"
| "join sep (x # y # ys) = x @ sep @ join sep (y # ys)"

text \<open>\<open>any(term in s for term in terms)\<close>.\<close>

definition any_term_in :: "string list \<Rightarrow> string \<Rightarrow> bool" where
  "any_term_in terms s = list_ex (\<lambda>t. str_in t s) terms"

section \<open>Decoded JSON\<close>

text \<open>
  What \<open>json.load\<close> hands to the analyzer. A scalar is \<open>None\<close>, a \<open>bool\<close>, an unbounded
  \<open>int\<close>, a finite \<open>float\<close> (a rational number; NaN and the infinities, which standard
  JSON cannot write, are left out) or a \<open>str\<close>. An object is a \<open>dict\<close> with string keys,
  kept as an association list in insertion order and read with \<open>map_of\<close>.

  The top-level value \<open>json_data\<close> is a list of records (the spec's Dataset), a single
  object, or a scalar. A top-level list with an element that is not an object is outside
  this type.
\<close>

datatype atom = ANull | ABool bool | AInt int | AFloat rat | AStr string

datatype json = Atom atom | Arr "json list" | Obj "(string \<times> json) list"

type_synonym jrecord = "(string \<times> json) list"

datatype json_data = Records "jrecord list" | Object jrecord | Scalar atom

datatype py_exn = TypeError | AttributeError

text \<open>Python truthiness, as tested by \<open>if not json_data\<close>.\<close>

fun truthy_atom :: "atom \<Rightarrow> bool" where
  "truthy_atom ANull = False"
| "truthy_atom (ABool b) = b"
| "truthy_atom (AInt i) = (i \<noteq> 0)"
| "truthy_atom (AFloat r) = (r \<noteq> 0)"
| "truthy_atom (AStr s) = (s \<noteq> [])"

fun truthy :: "json_data \<Rightarrow> bool" where
  "truthy (Records rs) = (rs \<noteq> [])"
| "truthy (Object kvs) = (kvs \<noteq> [])"
| "truthy (Scalar a) = truthy_atom a"

text \<open>\<open>len(json_data)\<close>: a \<open>TypeError\<close> on a value that has no length.\<close>

fun py_len :: "json_data \<Rightarrow> py_exn + nat" where
  "py_len (Records rs) = Inr (length rs)"
| "py_len (Object kvs) = Inr (length kvs)"
| "py_len (Scalar (AStr s)) = Inr (length s)"
| "py_len (Scalar a) = Inl TypeError"

section \<open>The part of pandas the analyzer uses\<close>

text \<open>
  pandas is a library, not code of this repository; this section fixes the behaviour the
  model takes from it, on lists of JSON objects.

  \<open>pd.DataFrame(records)\<close> has one column per key that occurs in some record, in order
  of first occurrence, and one row per record; a record without the key holds NaN there.
  \<open>df[col]\<close> is the column's cells in row order, and \<open>dropna\<close>/\<open>isnull\<close> treat both
  \<open>None\<close> and NaN as missing, so a missing key and a JSON \<open>null\<close> are the same cell here.
\<close>

record dataframe =
  df_columns :: "string list"
  df_rows :: "jrecord list"

fun add_keys :: "string list \<Rightarrow> string list \<Rightarrow> string list" where
  "add_keys seen [] = seen"
| "add_keys seen (k # ks) = add_keys (if k \<in> set seen then seen else seen @ [k]) ks"

fun union_keys :: "string list \<Rightarrow> jrecord list \<Rightarrow> string list" where
  "union_keys seen [] = seen"
| "union_keys seen (r # rs) = union_keys (add_keys seen (map fst r)) rs"

definition pd_DataFrame :: "jrecord list \<Rightarrow> py_exn + dataframe" where
  "pd_DataFrame records = Inr \<lparr>df_columns = union_keys [] records, df_rows = records\<rparr>"

definition df_len :: "dataframe \<Rightarrow> nat" where
  "df_len df = length (df_rows df)"

definition cell :: "jrecord \<Rightarrow> string \<Rightarrow> json" where
  "cell r col = (case map_of r col of None \<Rightarrow> Atom ANull | Some v \<Rightarrow> v)"

definition df_col :: "dataframe \<Rightarrow> string \<Rightarrow> json list" where
  "df_col df col = map (\<lambda>r. cell r col) (df_rows df)"

definition isnull :: "json \<Rightarrow> bool" where
  "isnull v = (v = Atom ANull)"

definition dropna :: "json list \<Rightarrow> json list" where
  "dropna cells = filter (\<lambda>v. \<not> isnull v) cells"

section \<open>Pattern detection\<close>

text \<open>
  \<open>DynamicDashboardGenerator._detect_data_pattern(df, analysis_type)\<close>. The frame comes
  from \<open>pd.DataFrame(json_data)\<close> in \<open>_generate_visualizations\<close>; the function reads its
  column labels and its number of rows.
\<close>

definition bridge_terms :: "string list" where
  "bridge_terms = [''expansion'', ''contraction'', ''churn'', ''new'', ''bridge'',
     ''starting'', ''ending'']"

definition customer_terms :: "string list" where
  "customer_terms = [''customer'', ''client'', ''company'']"

definition revenue_terms :: "string list" where
  "revenue_terms = [''revenue'', ''amount'', ''value'']"

definition geo_terms :: "string list" where
  "geo_terms = [''country'', ''region'', ''geographic'', ''location'']"

definition quarterly_terms :: "string list" where
  "quarterly_terms = [''q3'', ''q4'', ''quarter'', ''qoq'']"

definition monthly_terms :: "string list" where
  "monthly_terms = [''month'', ''monthly'', ''jan'', ''feb'', ''mar'', ''apr'', ''may'',
     ''jun'', ''jul'', ''aug'', ''sep'', ''oct'', ''nov'', ''dec'']"

definition time_terms :: "string list" where
  "time_terms = [''date'', ''time'', ''period'']"

definition detect_data_pattern :: "dataframe \<Rightarrow> string \<Rightarrow> string" where
  "detect_data_pattern df analysis_type =
     (let cols = map lower (df_columns df);
          joined = join '' '' cols
      in if any_term_in bridge_terms joined then ''revenue_bridge''
         else if any_term_in customer_terms joined \<and> any_term_in revenue_terms joined
           then ''customer_analysis''
         else if any_term_in geo_terms joined then ''geographic''
         else if any_term_in quarterly_terms joined then ''quarterly''
         else if any_term_in monthly_terms joined then ''monthly_trends''
         else if str_in ''month_label'' joined
                 \<and> any_term_in [''revenue'', ''amount'', ''value''] joined
           then ''monthly_trends''
         else if str_in ''variance'' joined \<and> any_term_in [''revenue'', ''amount''] joined
           then ''monthly_trends''
         else if any_term_in time_terms joined
                 \<and> any_term_in [''revenue'', ''amount'', ''value''] joined
                 \<and> df_len df \<le> 24
           then ''monthly_trends''
         else ''default'')"

section \<open>Column profiles\<close>

text \<open>
  More of pandas, for \<open>JSONSchemaAnalyzer._analyze_columns\<close>. A column's dtype is inferred
  from all its cells: \<open>bool\<close> when every cell is a boolean, \<open>int64\<close> when every cell is an
  integer, \<open>float64\<close> when every cell is a number or missing, \<open>object\<close> otherwise
  (integers are taken to fit 64 bits). In a \<open>float64\<close> column the integers are held as
  floats. \<open>is_numeric_dtype\<close> holds of every dtype but \<open>object\<close>, and no column built from
  decoded JSON has a datetime dtype. \<open>nunique\<close> counts the distinct values by Python's
  hashing and equality, under which \<open>True\<close>, \<open>1\<close> and \<open>1.0\<close> are one value, and raises
  \<open>TypeError\<close> on a list or a dict, which cannot be hashed.
\<close>

datatype dtype = Int64 | Float64 | Bool | ObjectDtype

fun is_bool_cell :: "json \<Rightarrow> bool" where
  "is_bool_cell (Atom (ABool b)) = True"
| "is_bool_cell v = False"

fun is_int_cell :: "json \<Rightarrow> bool" where
  "is_int_cell (Atom (AInt i)) = True"
| "is_int_cell v = False"

fun is_float_cell :: "json \<Rightarrow> bool" where
  "is_float_cell (Atom (AFloat r)) = True"
| "is_float_cell v = False"

definition infer_dtype :: "json list \<Rightarrow> dtype" where
  "infer_dtype cells =
     (if list_all is_bool_cell cells then Bool
      else if list_all is_int_cell cells then Int64
      else if list_all (\<lambda>v. is_int_cell v \<or> is_float_cell v \<or> isnull v) cells then Float64
      else ObjectDtype)"

fun as_dtype :: "dtype \<Rightarrow> json \<Rightarrow> json" where
  "as_dtype Float64 (Atom (AInt i)) = Atom (AFloat (of_int i))"
| "as_dtype dt v = v"

fun dtype_str :: "dtype \<Rightarrow> string" where
  "dtype_str Int64 = ''int64''"
| "dtype_str Float64 = ''float64''"
| "dtype_str Bool = ''bool''"
| "dtype_str ObjectDtype = ''object''"

definition is_numeric_dtype :: "dtype \<Rightarrow> bool" where
  "is_numeric_dtype dt = (dt \<noteq> ObjectDtype)"

definition is_datetime64_any_dtype :: "dtype \<Rightarrow> bool" where
  "is_datetime64_any_dtype dt = False"

datatype hash_key = KNone | KNum rat | KStr string

fun hashable :: "json \<Rightarrow> bool" where
  "hashable (Atom a) = True"
| "hashable v = False"

fun key_of :: "json \<Rightarrow> hash_key" where
  "key_of (Atom (ABool b)) = KNum (if b then 1 else 0)"
| "key_of (Atom (AInt i)) = KNum (of_int i)"
| "key_of (Atom (AFloat r)) = KNum r"
| "key_of (Atom (AStr s)) = KStr s"
| "key_of v = KNone"

definition nunique :: "json list \<Rightarrow> py_exn + nat" where
  "nunique cells =
     (if list_all hashable cells then Inr (length (remdups (map key_of cells)))
      else Inl TypeError)"

text \<open>
  One entry of the dict \<open>_analyze_columns\<close> returns. The four entries a numeric column
  gets in addition (\<open>min_value\<close>, \<open>max_value\<close>, \<open>mean_value\<close>, \<open>has_negative\<close>) are IEEE
  floating-point aggregates that nothing in the analyzer reads back; they are not part of
  the model.
\<close>

record column_analysis =
  name :: string
  col_data_type :: string
  non_null_count :: nat
  null_count :: nat
  unique_count :: nat
  is_numeric :: bool
  is_datetime :: bool
  sample_values :: "json list"

type_synonym column_dict = "(string \<times> column_analysis) list"

text \<open>
  The loop over \<open>df.columns\<close>. The dict under construction is an association list and
  \<open>column_analysis[col] = analysis\<close> is \<open>AList.update\<close>: it replaces the entry of a key
  that is present and appends otherwise. An exception leaves the loop with \<open>Inl\<close>.
\<close>

fun analyze_columns_loop :: "dataframe \<Rightarrow> string list \<Rightarrow> column_dict \<Rightarrow> py_exn + column_dict" where
  "analyze_columns_loop df [] column_analysis = Inr column_analysis"
| "analyze_columns_loop df (col # cols) column_analysis =
     (let dt = infer_dtype (df_col df col);
          col_data = map (as_dtype dt) (dropna (df_col df col))
      in if col_data = [] then analyze_columns_loop df cols column_analysis
         else (case nunique col_data of
                 Inl e \<Rightarrow> Inl e
               | Inr u \<Rightarrow>
                   analyze_columns_loop df cols
                     (AList.update col
                        \<lparr>name = col,
                         col_data_type = dtype_str dt,
                         non_null_count = length col_data,
                         null_count = length (filter isnull (df_col df col)),
                         unique_count = u,
                         is_numeric = is_numeric_dtype dt,
                         is_datetime = is_datetime64_any_dtype dt,
                         sample_values = take 3 col_data\<rparr>
                        column_analysis)))"

text \<open>\<open>_analyze_columns\<close>: every exception of the \<open>try\<close> block gives the empty dict.\<close>

fun analyze_columns :: "json_data \<Rightarrow> column_dict" where
  "analyze_columns (Records rs) =
     (if rs = [] then []
      else (case pd_DataFrame rs of
              Inl e \<Rightarrow> []
            | Inr df \<Rightarrow>
                (case analyze_columns_loop df (df_columns df) [] of
                   Inl e \<Rightarrow> []
                 | Inr column_analysis \<Rightarrow> column_analysis)))"
| "analyze_columns d = []"

section \<open>Metric groups\<close>

record metric_groups =
  revenue_columns :: "string list"
  date_columns :: "string list"
  categorical_columns :: "string list"
  percentage_columns :: "string list"
  id_columns :: "string list"

definition empty_metrics :: metric_groups where
  "empty_metrics = \<lparr>revenue_columns = [], date_columns = [], categorical_columns = [],
     percentage_columns = [], id_columns = []\<rparr>"

text \<open>
  The body of the loop of \<open>_identify_metrics\<close> for one item of \<open>columns.items()\<close>. The
  last test compares an \<open>int\<close> with \<open>len(json_data) * 0.5\<close>; the product is exact, so the
  comparison is the one of rationals. \<open>len(json_data)\<close> is evaluated only when that test
  is reached.
\<close>

definition identify_step :: "json_data \<Rightarrow> string \<times> column_analysis \<Rightarrow> metric_groups \<Rightarrow> py_exn + metric_groups" where
  "identify_step json_data item m =
     (let col = fst item; analysis = snd item; col_lower = lower col
      in if any_term_in [''revenue'', ''amount'', ''value'', ''price'', ''cost''] col_lower
         then (if is_numeric analysis
               then Inr (m\<lparr>revenue_columns := revenue_columns m @ [col]\<rparr>)
               else Inr m)
         else if any_term_in [''date'', ''month'', ''quarter'', ''year'', ''time''] col_lower
         then Inr (m\<lparr>date_columns := date_columns m @ [col]\<rparr>)
         else if any_term_in [''percent'', ''%'', ''rate'', ''ratio''] col_lower
         then Inr (m\<lparr>percentage_columns := percentage_columns m @ [col]\<rparr>)
         else if any_term_in [''id'', ''name'', ''customer'', ''client''] col_lower
         then Inr (m\<lparr>id_columns := id_columns m @ [col]\<rparr>)
         else if is_numeric analysis then Inr m
         else (case py_len json_data of
                 Inl e \<Rightarrow> Inl e
               | Inr n \<Rightarrow>
                   if rat_of_nat (unique_count analysis) < rat_of_nat n * (1 / 2)
                   then Inr (m\<lparr>categorical_columns := categorical_columns m @ [col]\<rparr>)
                   else Inr m))"

fun identify_loop :: "json_data \<Rightarrow> column_dict \<Rightarrow> metric_groups \<Rightarrow> py_exn + metric_groups" where
  "identify_loop json_data [] m = Inr m"
| "identify_loop json_data (item # items) m =
     (case identify_step json_data item m of
        Inl e \<Rightarrow> Inl e
      | Inr m' \<Rightarrow> identify_loop json_data items m')"

definition identify_metrics :: "json_data \<Rightarrow> py_exn + metric_groups" where
  "identify_metrics json_data = identify_loop json_data (analyze_columns json_data) empty_metrics"

section \<open>Data type, structure, suggestions, confidence\<close>

text \<open>
  \<open>_detect_data_type\<close>. The \<open>except\<close> branch answers an exception of \<open>pd.DataFrame\<close>;
  the labels of a frame built from JSON objects are strings, so \<open>col.lower()\<close> does not
  raise.
\<close>

fun detect_data_type :: "json_data \<Rightarrow> string" where
  "detect_data_type (Records json_data) =
     (if json_data = [] then ''unknown''
      else (let sample_size = min 5 (length json_data);
                sample_data = take sample_size json_data
            in case pd_DataFrame sample_data of
                 Inl e \<Rightarrow> ''unknown''
               | Inr df \<Rightarrow>
                   (let cols = map lower (df_columns df);
                        joined = join '' '' cols
                    in if any_term_in [''quarter'', ''q3'', ''q4'', ''qoq''] joined
                         then ''quarterly''
                       else if any_term_in [''churn'', ''expansion'', ''bridge''] joined
                         then ''bridge''
                       else if any_term_in [''country'', ''region'', ''geographic''] joined
                         then ''geographic''
                       else if any_term_in [''customer'', ''client'', ''concentration''] joined
                         then ''customer''
                       else if any_term_in [''month'', ''monthly'', ''mom''] joined
                         then ''monthly''
                       else ''general'')))"
| "detect_data_type d = ''unknown''"

record structure_info =
  struct_type :: string
  struct_count :: nat
  sample_keys :: "string list option"

fun analyze_structure :: "json_data \<Rightarrow> structure_info" where
  "analyze_structure (Records json_data) =
     \<lparr>struct_type = ''array_of_objects'', struct_count = length json_data,
      sample_keys = Some (case json_data of [] \<Rightarrow> [] | r # rs \<Rightarrow> map fst r)\<rparr>"
| "analyze_structure d =
     \<lparr>struct_type = ''single_object'', struct_count = 1, sample_keys = None\<rparr>"

record schema =
  data_type :: string
  schema_structure :: structure_info
  columns :: column_dict
  metrics :: metric_groups
  suggested_visualizations :: "string list"
  confidence_score :: int

definition suggest_visualizations :: "schema \<Rightarrow> string list" where
  "suggest_visualizations sch =
     (let m = metrics sch; dt = data_type sch;
          s1 = (if revenue_columns m \<noteq> [] then [''bar_chart'', ''line_chart'', ''metric_cards'']
                else []);
          s2 = s1 @ (if dt = ''geographic'' then [''pie_chart'', ''treemap'', ''bar_chart'']
                     else []);
          s3 = s2 @ (if date_columns m \<noteq> [] then [''line_chart'', ''area_chart''] else []);
          s4 = s3 @ (if dt = ''customer'' \<or> id_columns m \<noteq> []
                     then [''treemap'', ''pareto_chart'', ''concentration_analysis'']
                     else []);
          s5 = s4 @ (if dt = ''bridge'' then [''waterfall_chart'', ''sankey_diagram''] else [])
      in if s5 = [] then [''table'', ''bar_chart'', ''summary_metrics''] else s5)"

text \<open>
  \<open>_calculate_confidence\<close>. \<open>metrics.values()\<close> are the five lists of the dict built by
  \<open>_identify_metrics\<close>, in its insertion order.
\<close>

definition metrics_values :: "metric_groups \<Rightarrow> string list list" where
  "metrics_values m = [revenue_columns m, date_columns m, categorical_columns m,
     percentage_columns m, id_columns m]"

definition calculate_confidence :: "schema \<Rightarrow> int" where
  "calculate_confidence sch =
     (let score0 = (if data_type sch \<noteq> ''unknown'' then 30 else 0);
          score1 = (if columns sch \<noteq> [] then score0 + min 20 (int (length (columns sch)) * 2)
                    else score0);
          total_metrics = sum_list (map (\<lambda>v. int (length v)) (metrics_values (metrics sch)));
          score2 = score1 + min 30 (total_metrics * 5);
          score3 = (if suggested_visualizations sch \<noteq> [] then score2 + 20 else score2)
      in min 100 score3)"

section \<open>The cache manager\<close>

text \<open>
  \<open>CacheManager\<close>: three dicts from key to an item holding the payload and the time it was
  stored, and the time-to-live in seconds. A \<open>datetime\<close> is a count of microseconds, the
  resolution of the type, so \<open>(now - timestamp).total_seconds() < self.cache_ttl\<close> is
  \<open>now - timestamp < cache_ttl * 1000000\<close>. The reading of the clock, \<open>datetime.now()\<close>,
  is an argument of each operation. The payloads are values other than \<open>None\<close>; the
  \<open>None\<close> a lookup returns for an absent key is the option's \<open>None\<close>.
\<close>

record 'v cache_item =
  data :: 'v
  timestamp :: int

record ('a, 'b) cache_manager =
  analysis_cache :: "string \<rightharpoonup> 'a cache_item"
  visualization_cache :: "string \<rightharpoonup> 'b cache_item"
  schema_cache :: "string \<rightharpoonup> schema cache_item"
  cache_ttl :: int

definition new_cache_manager :: "('a, 'b) cache_manager" where
  "new_cache_manager = \<lparr>analysis_cache = Map.empty, visualization_cache = Map.empty,
     schema_cache = Map.empty, cache_ttl = 300\<rparr>"

definition get_analysis_cache ::
  "('a, 'b) cache_manager \<Rightarrow> int \<Rightarrow> string \<Rightarrow> 'a option \<times> ('a, 'b) cache_manager" where
  "get_analysis_cache cm now cache_key =
     (case analysis_cache cm cache_key of
        None \<Rightarrow> (None, cm)
      | Some cached_item \<Rightarrow>
          if now - timestamp cached_item < cache_ttl cm * 1000000
          then (Some (data cached_item), cm)
          else (None, cm\<lparr>analysis_cache := (analysis_cache cm)(cache_key := None)\<rparr>))"

definition set_analysis_cache ::
  "('a, 'b) cache_manager \<Rightarrow> int \<Rightarrow> string \<Rightarrow> 'a \<Rightarrow> ('a, 'b) cache_manager" where
  "set_analysis_cache cm now cache_key v =
     cm\<lparr>analysis_cache := (analysis_cache cm)(cache_key \<mapsto> \<lparr>data = v, timestamp = now\<rparr>)\<rparr>"

definition get_schema_cache ::
  "('a, 'b) cache_manager \<Rightarrow> int \<Rightarrow> string \<Rightarrow> schema option \<times> ('a, 'b) cache_manager" where
  "get_schema_cache cm now cache_key =
     (case schema_cache cm cache_key of
        None \<Rightarrow> (None, cm)
      | Some cached_item \<Rightarrow>
          if now - timestamp cached_item < cache_ttl cm * 1000000
          then (Some (data cached_item), cm)
          else (None, cm\<lparr>schema_cache := (schema_cache cm)(cache_key := None)\<rparr>))"

definition set_schema_cache ::
  "('a, 'b) cache_manager \<Rightarrow> int \<Rightarrow> string \<Rightarrow> schema \<Rightarrow> ('a, 'b) cache_manager" where
  "set_schema_cache cm now cache_key v =
     cm\<lparr>schema_cache := (schema_cache cm)(cache_key \<mapsto> \<lparr>data = v, timestamp = now\<rparr>)\<rparr>"

definition clear_cache :: "('a, 'b) cache_manager \<Rightarrow> ('a, 'b) cache_manager" where
  "clear_cache cm = cm\<lparr>analysis_cache := Map.empty, visualization_cache := Map.empty,
     schema_cache := Map.empty\<rparr>"

text \<open>
  \<open>get_cache_key(data, *args)\<close>. \<open>hashlib.md5(b).hexdigest()\<close> and Python's \<open>str\<close> are
  library functions and are arguments of the model: \<open>md5_hexdigest\<close> maps the bytes to the
  digest's text, \<open>py_str\<close> maps an object to its text, for the four kinds of object the
  function prints. \<open>encode\<close> is the identity on ASCII text.
\<close>

datatype py_obj = PyInt int | PyRecord jrecord | PyData json_data | PyArgs "string option list"

definition get_cache_key ::
  "(string \<Rightarrow> string) \<Rightarrow> (py_obj \<Rightarrow> string) \<Rightarrow> json_data \<Rightarrow> string option list \<Rightarrow> string" where
  "get_cache_key md5_hexdigest py_str d args =
     (let content_hash =
            (case d of
               Records (r # rs) \<Rightarrow>
                 take 8 (md5_hexdigest (py_str (PyInt (int (length (r # rs))))
                                         @ py_str (PyRecord r)))
             | _ \<Rightarrow> take 8 (md5_hexdigest (py_str (PyData d))));
          args_hash = take 8 (md5_hexdigest (py_str (PyArgs args)))
      in content_hash @ ''_'' @ args_hash)"

section \<open>The analyzer\<close>

text \<open>
  \<open>JSONSchemaAnalyzer.analyze_json_schema(json_data, data_key)\<close>, with the global cache
  manager passed in and returned. The clock is read once by the lookup (\<open>t_get\<close>) and
  once by the store (\<open>t_set\<close>). The result is \<open>Inl\<close> for an exception that leaves the
  function, \<open>Inr None\<close> for \<open>return None\<close> and \<open>Inr (Some schema)\<close> for a returned schema.
  A cached schema is a dict with six keys, hence true in \<open>if cached_schema\<close>.
\<close>

definition build_schema :: "json_data \<Rightarrow> py_exn + schema" where
  "build_schema json_data =
     (case identify_metrics json_data of
        Inl e \<Rightarrow> Inl e
      | Inr m \<Rightarrow>
          (let schema0 = \<lparr>data_type = detect_data_type json_data,
                          schema_structure = analyze_structure json_data,
                          columns = analyze_columns json_data,
                          metrics = m,
                          suggested_visualizations = [],
                          confidence_score = 0\<rparr>;
               schema1 = schema0\<lparr>suggested_visualizations := suggest_visualizations schema0\<rparr>
           in Inr (schema1\<lparr>confidence_score := calculate_confidence schema1\<rparr>)))"

definition analyze_json_schema ::
  "(string \<Rightarrow> string) \<Rightarrow> (py_obj \<Rightarrow> string) \<Rightarrow> ('a, 'b) cache_manager \<Rightarrow> int \<Rightarrow> int \<Rightarrow>
   json_data \<Rightarrow> string option \<Rightarrow> (py_exn + schema option) \<times> ('a, 'b) cache_manager" where
  "analyze_json_schema md5_hexdigest py_str cm t_get t_set json_data data_key =
     (if \<not> truthy json_data then (Inr None, cm)
      else (let cache_key = get_cache_key md5_hexdigest py_str json_data [data_key];
                looked_up = get_schema_cache cm t_get cache_key
            in case fst looked_up of
                 Some cached_schema \<Rightarrow> (Inr (Some cached_schema), snd looked_up)
               | None \<Rightarrow>
                   (case build_schema json_data of
                      Inl e \<Rightarrow> (Inl e, snd looked_up)
                    | Inr sch \<Rightarrow>
                        (Inr (Some sch),
                         set_schema_cache (snd looked_up) t_set cache_key sch))))"

section \<open>Properties stated in the spec's words\<close>

text \<open>
  The confidence score as the spec gives it: four capped terms added up and clamped at
  100.
\<close>

definition confidence_spec :: "schema \<Rightarrow> int" where
  "confidence_spec sch =
     min 100
       ((if data_type sch \<noteq> ''unknown'' then 30 else 0)
        + min 20 (2 * int (length (columns sch)))
        + min 30 (5 * (int (length (revenue_columns (metrics sch)))
                      + int (length (date_columns (metrics sch)))
                      + int (length (percentage_columns (metrics sch)))
                      + int (length (id_columns (metrics sch)))
                      + int (length (categorical_columns (metrics sch)))))
        + (if suggested_visualizations sch \<noteq> [] then 20 else 0))"

text \<open>Every schema held in the schema cache carries the score of the formula.\<close>

definition schema_cache_ok :: "('a, 'b) cache_manager \<Rightarrow> bool" where
  "schema_cache_ok cm =
     (\<forall>k item. schema_cache cm k = Some item \<longrightarrow>
        confidence_score (data item) = confidence_spec (data item))"

text \<open>What \<open>hexdigest\<close> promises: 32 characters, each a lower-case hexadecimal digit.\<close>

definition hexdigits :: string where
  "hexdigits = ''0123456789abcdef''"

definition is_hexdigest :: "(string \<Rightarrow> string) \<Rightarrow> bool" where
  "is_hexdigest h = (\<forall>x. length (h x) = 32 \<and> set (h x) \<subseteq> set hexdigits)"

text \<open>
  The classification of one profiled column, rule by rule: the group the column is
  placed in, if any.
\<close>

datatype metric_group = Revenue | Date | Percentage | Identifier | Categorical

fun members :: "metric_groups \<Rightarrow> metric_group \<Rightarrow> string list" where
  "members m Revenue = revenue_columns m"
| "members m Date = date_columns m"
| "members m Percentage = percentage_columns m"
| "members m Identifier = id_columns m"
| "members m Categorical = categorical_columns m"

definition name_has :: "string \<Rightarrow> string list \<Rightarrow> bool" where
  "name_has col tokens = list_ex (\<lambda>t. sublist t (lower col)) tokens"

definition classify_spec :: "nat \<Rightarrow> string \<Rightarrow> column_analysis \<Rightarrow> metric_group option" where
  "classify_spec record_count col a =
     (if name_has col [''revenue'', ''amount'', ''value'', ''price'', ''cost'']
        then (if is_numeric a then Some Revenue else None)
      else if name_has col [''date'', ''month'', ''quarter'', ''year'', ''time''] then Some Date
      else if name_has col [''percent'', ''%'', ''rate'', ''ratio''] then Some Percentage
      else if name_has col [''id'', ''name'', ''customer'', ''client''] then Some Identifier
      else if \<not> is_numeric a \<and> rat_of_nat (unique_count a) < (1 / 2) * rat_of_nat record_count
        then Some Categorical
      else None)"

text \<open>
  Data type detection in the spec's words: the union of the column names of the sampled
  records, searched case-insensitively for the keyword sets in their fixed order.
\<close>

definition column_names :: "jrecord list \<Rightarrow> string set" where
  "column_names records = (\<Union>r \<in> set records. fst ` set r)"

definition names_mention :: "string set \<Rightarrow> string list \<Rightarrow> bool" where
  "names_mention names keywords = (\<exists>n \<in> names. \<exists>t \<in> set keywords. sublist t (lower n))"

definition data_type_of_names :: "string set \<Rightarrow> string" where
  "data_type_of_names names =
     (if names_mention names [''quarter'', ''q3'', ''q4'', ''qoq''] then ''quarterly''
      else if names_mention names [''churn'', ''expansion'', ''bridge''] then ''bridge''
      else if names_mention names [''country'', ''region'', ''geographic''] then ''geographic''
      else if names_mention names [''customer'', ''client'', ''concentration'']
        then ''customer''
      else if names_mention names [''month'', ''monthly'', ''mom''] then ''monthly''
      else ''general'')"

definition detectDataType_spec :: "json_data \<Rightarrow> string" where
  "detectDataType_spec d =
     (case d of
        Records (r # rs) \<Rightarrow> data_type_of_names (column_names (take 5 (r # rs)))
      | _ \<Rightarrow> ''unknown'')"

text \<open>Keywords that cannot match across the separator of joined column names.\<close>

definition spaceless :: "string list \<Rightarrow> bool" where
  "spaceless kws = list_all (\<lambda>t. t \<noteq> [] \<and> CHR '' '' \<notin> set t) kws"


section \<open>Example inputs\<close>

definition bridge_frame :: dataframe where
  "bridge_frame = \<lparr>df_columns = [''churn_amount'', ''customer_name'', ''revenue''],
     df_rows = [[(''churn_amount'', Atom (AInt 5)), (''customer_name'', Atom (AStr ''Acme'')),
                 (''revenue'', Atom (AInt 100))]]\<rparr>"

definition monthly_frame :: dataframe where
  "monthly_frame = \<lparr>df_columns = [''Month_Label'', ''Revenue''],
     df_rows = replicate 12
       [(''Month_Label'', Atom (AStr ''Jan'')), (''Revenue'', Atom (AInt 100))]\<rparr>"

definition variance_frame :: dataframe where
  "variance_frame = \<lparr>df_columns = [''Variance'', ''Amount''],
     df_rows = replicate 40 [(''Variance'', Atom (AInt 3)), (''Amount'', Atom (AInt 7))]\<rparr>"

definition period_frame :: dataframe where
  "period_frame = \<lparr>df_columns = [''Period'', ''Value''],
     df_rows = replicate 24 [(''Period'', Atom (AStr ''P1'')), (''Value'', Atom (AInt 9))]\<rparr>"

text \<open>
  Stand-ins for the two library functions \<open>get_cache_key\<close> takes as arguments, used
  where a statement needs concrete ones.
\<close>

definition md5_stub :: "string \<Rightarrow> string" where
  "md5_stub x =
     take 32 (map (\<lambda>c. hexdigits ! (of_char c mod 16)) x @ replicate 32 (CHR ''0''))"

fun str_stub :: "py_obj \<Rightarrow> string" where
  "str_stub (PyInt i) = replicate (nat i) (CHR ''I'')"
| "str_stub (PyRecord r) = concat (map fst r)"
| "str_stub (PyData d) = ''data''"
| "str_stub (PyArgs args) =
     concat (map (\<lambda>a. case a of None \<Rightarrow> ''None'' | Some s \<Rightarrow> s) args)"

definition fresh_cache :: "(json_data, unit) cache_manager" where
  "fresh_cache = new_cache_manager"

text \<open>The two-customer dataset of the spec's quarterly scenario, and its schema.\<close>

definition scenario_rows :: "jrecord list" where
  "scenario_rows =
     [[(''Customer Name'', Atom (AStr ''Acme'')), (''Quarter 3 Revenue'', Atom (AInt 100)),
       (''Quarter 4 Revenue'', Atom (AInt 150))],
      [(''Customer Name'', Atom (AStr ''Beta'')), (''Quarter 3 Revenue'', Atom (AInt 200)),
       (''Quarter 4 Revenue'', Atom (AInt 180))]]"

definition scenario_data :: json_data where
  "scenario_data = Records scenario_rows"

definition scenario_schema :: schema where
  "scenario_schema =
     \<lparr>data_type = ''quarterly'',
      schema_structure = \<lparr>struct_type = ''array_of_objects'', struct_count = 2,
        sample_keys = Some [''Customer Name'', ''Quarter 3 Revenue'', ''Quarter 4 Revenue'']\<rparr>,
      columns =
        [(''Customer Name'',
          \<lparr>name = ''Customer Name'', col_data_type = ''object'', non_null_count = 2,
           null_count = 0, unique_count = 2, is_numeric = False, is_datetime = False,
           sample_values = [Atom (AStr ''Acme''), Atom (AStr ''Beta'')]\<rparr>),
         (''Quarter 3 Revenue'',
          \<lparr>name = ''Quarter 3 Revenue'', col_data_type = ''int64'', non_null_count = 2,
           null_count = 0, unique_count = 2, is_numeric = True, is_datetime = False,
           sample_values = [Atom (AInt 100), Atom (AInt 200)]\<rparr>),
         (''Quarter 4 Revenue'',
          \<lparr>name = ''Quarter 4 Revenue'', col_data_type = ''int64'', non_null_count = 2,
           null_count = 0, unique_count = 2, is_numeric = True, is_datetime = False,
           sample_values = [Atom (AInt 150), Atom (AInt 180)]\<rparr>)],
      metrics = \<lparr>revenue_columns = [''Quarter 3 Revenue'', ''Quarter 4 Revenue''],
        date_columns = [], categorical_columns = [], percentage_columns = [],
        id_columns = [''Customer Name'']\<rparr>,
      suggested_visualizations = [''bar_chart'', ''line_chart'', ''metric_cards'', ''treemap'',
        ''pareto_chart'', ''concentration_analysis''],
      confidence_score = 71\<rparr>"

text \<open>A dataset of the same length and first record as the scenario, with another second record.\<close>

definition lookalike_rows :: "jrecord list" where
  "lookalike_rows =
     [[(''Customer Name'', Atom (AStr ''Acme'')), (''Quarter 3 Revenue'', Atom (AInt 100)),
       (''Quarter 4 Revenue'', Atom (AInt 150))],
      [(''Customer Name'', Atom (AStr ''Gamma'')), (''Quarter 3 Revenue'', Atom (AInt 1)),
       (''Quarter 4 Revenue'', Atom (AInt 2))]]"


text \<open>A text column with a revenue word in its name.\<close>

definition revenue_type_data :: json_data where
  "revenue_type_data = Records
     [[(''revenue_type'', Atom (AStr ''recurring''))],
      [(''revenue_type'', Atom (AStr ''one-off''))]]"

text \<open>Five records with a repetitive and a near-unique text column.\<close>

definition segment_rows :: "jrecord list" where
  "segment_rows =
     [[(''segment'', Atom (AStr ''smb'')), (''notes'', Atom (AStr ''n1''))],
      [(''segment'', Atom (AStr ''smb'')), (''notes'', Atom (AStr ''n2''))],
      [(''segment'', Atom (AStr ''smb'')), (''notes'', Atom (AStr ''n3''))],
      [(''segment'', Atom (AStr ''ent'')), (''notes'', Atom (AStr ''n4''))],
      [(''segment'', Atom (AStr ''ent'')), (''notes'', Atom (AStr ''n5''))]]"

definition segment_profile :: column_analysis where
  "segment_profile =
     \<lparr>name = ''segment'', col_data_type = ''object'', non_null_count = 5, null_count = 0,
      unique_count = 2, is_numeric = False, is_datetime = False,
      sample_values = [Atom (AStr ''smb''), Atom (AStr ''smb''), Atom (AStr ''smb'')]\<rparr>"

definition notes_profile :: column_analysis where
  "notes_profile =
     \<lparr>name = ''notes'', col_data_type = ''object'', non_null_count = 5, null_count = 0,
      unique_count = 5, is_numeric = False, is_datetime = False,
      sample_values = [Atom (AStr ''n1''), Atom (AStr ''n2''), Atom (AStr ''n3'')]\<rparr>"

definition segment_metrics :: metric_groups where
  "segment_metrics = \<lparr>revenue_columns = [], date_columns = [],
     categorical_columns = [''segment''], percentage_columns = [], id_columns = []\<rparr>"

section \<open>Containment in joined column names\<close>

lemma sublist_join:
  "c \<in> set cols \<Longrightarrow> sublist c (join sep cols)"
proof (induction sep cols rule: join.induct)
  case (3 sep x y ys)
  show ?case
  proof (cases "c = x")
    case True
    then show ?thesis by simp
  next
    case False
    with 3 have "sublist c (join sep (y # ys))" by simp
    then obtain ps ss where "join sep (y # ys) = ps @ c @ ss"
      by (auto simp: sublist_def)
    then have "join sep (x # y # ys) = (x @ sep @ ps) @ c @ ss" by simp
    then show ?thesis unfolding sublist_def by blast
  qed
qed simp_all

lemma str_in_join:
  "c \<in> set cols \<Longrightarrow> str_in t c \<Longrightarrow> str_in t (join sep cols)"
  unfolding str_in_def using sublist_join sublist_order.order_trans by blast

lemma any_term_in_join:
  "c \<in> set cols \<Longrightarrow> t \<in> set terms \<Longrightarrow> str_in t c \<Longrightarrow> any_term_in terms (join sep cols)"
  unfolding any_term_in_def list_ex_iff using str_in_join by blast

lemma any_lower_col:
  "c \<in> set cs \<Longrightarrow> lower c = c \<Longrightarrow> t \<in> set terms \<Longrightarrow> str_in t c
   \<Longrightarrow> any_term_in terms (join sep (map lower cs))"
proof -
  assume a: "c \<in> set cs" "lower c = c" "t \<in> set terms" "str_in t c"
  have "lower c \<in> set (map lower cs)" using a(1) by simp
  then have "c \<in> set (map lower cs)" using a(2) by simp
  then show ?thesis using a(3,4) by (rule any_term_in_join)
qed

lemma lower_bridge_names:
  "lower ''churn_amount'' = ''churn_amount''"
  "lower ''customer_name'' = ''customer_name''"
  "lower ''revenue'' = ''revenue''"
  by (simp_all add: lower_def lower_char_def)

section \<open>Pattern detection: precedence and the monthly rules\<close>

text \<open>
  C10. The result of \<open>_detect_data_pattern\<close> does not depend on its second argument, the
  declared category: two calls on the same frame agree whatever the two categories are.
\<close>

theorem pattern_ignores_declared_category:
  "detect_data_pattern df c1 = detect_data_pattern df c2"
  by (simp add: detect_data_pattern_def)

text \<open>
  C7. A frame whose column names include \<open>churn_amount\<close>, \<open>customer_name\<close> and \<open>revenue\<close>
  is classified \<open>revenue_bridge\<close> and not \<open>customer_analysis\<close>, although the customer
  condition and the revenue condition of the second rule both hold: the bridge rule is
  tried first.
\<close>

theorem pattern_bridge_precedence:
  assumes "''churn_amount'' \<in> set (df_columns df)"
    and "''customer_name'' \<in> set (df_columns df)"
    and "''revenue'' \<in> set (df_columns df)"
  shows "detect_data_pattern df c = ''revenue_bridge''
     \<and> detect_data_pattern df c \<noteq> ''customer_analysis''
     \<and> any_term_in customer_terms (join '' '' (map lower (df_columns df)))
     \<and> any_term_in revenue_terms (join '' '' (map lower (df_columns df)))"
proof -
  let ?j = "join '' '' (map lower (df_columns df))"
  have s1: "str_in ''churn'' ''churn_amount''"
    by (simp add: str_in_def sublist_Cons_right)
  have s2: "str_in ''customer'' ''customer_name''"
    by (simp add: str_in_def sublist_Cons_right)
  have s3: "str_in ''revenue'' ''revenue''"
    by (simp add: str_in_def)
  have b: "any_term_in bridge_terms ?j"
    using assms(1) lower_bridge_names(1) _ s1
    by (rule any_lower_col) (simp add: bridge_terms_def)
  have c: "any_term_in customer_terms ?j"
    using assms(2) lower_bridge_names(2) _ s2
    by (rule any_lower_col) (simp add: customer_terms_def)
  have r: "any_term_in revenue_terms ?j"
    using assms(3) lower_bridge_names(3) _ s3
    by (rule any_lower_col) (simp add: revenue_terms_def)
  from b have "detect_data_pattern df c = ''revenue_bridge''"
    by (simp add: detect_data_pattern_def)
  with c r show ?thesis by simp
qed

theorem pattern_bridge_precedence_witness:
  "''churn_amount'' \<in> set (df_columns bridge_frame)
   \<and> ''customer_name'' \<in> set (df_columns bridge_frame)
   \<and> ''revenue'' \<in> set (df_columns bridge_frame)
   \<and> detect_data_pattern bridge_frame ''customer'' = ''revenue_bridge''"
proof -
  have 1: "''churn_amount'' \<in> set (df_columns bridge_frame)"
    and 2: "''customer_name'' \<in> set (df_columns bridge_frame)"
    and 3: "''revenue'' \<in> set (df_columns bridge_frame)"
    by (simp_all add: bridge_frame_def)
  from pattern_bridge_precedence[OF 1 2 3, of "''customer''"] 1 2 3 show ?thesis by blast
qed

text \<open>
  C8. When none of the four rules of higher precedence matches (bridge, customer with
  revenue, geographic, quarterly), \<open>_detect_data_pattern\<close> answers \<open>monthly_trends\<close> if
  the joined lower-case column names contain \<open>month_label\<close> and one of revenue, amount,
  value (whatever the number of rows), or contain \<open>variance\<close> and one of revenue, amount,
  or contain one of date, time, period and one of revenue, amount, value while the frame
  has at most 24 rows.
\<close>

theorem pattern_monthly_rules:
  assumes "\<not> any_term_in bridge_terms (join '' '' (map lower (df_columns df)))"
    and "\<not> (any_term_in customer_terms (join '' '' (map lower (df_columns df)))
            \<and> any_term_in revenue_terms (join '' '' (map lower (df_columns df))))"
    and "\<not> any_term_in geo_terms (join '' '' (map lower (df_columns df)))"
    and "\<not> any_term_in quarterly_terms (join '' '' (map lower (df_columns df)))"
    and "(str_in ''month_label'' (join '' '' (map lower (df_columns df)))
            \<and> any_term_in [''revenue'', ''amount'', ''value'']
                 (join '' '' (map lower (df_columns df))))
       \<or> (str_in ''variance'' (join '' '' (map lower (df_columns df)))
            \<and> any_term_in [''revenue'', ''amount''] (join '' '' (map lower (df_columns df))))
       \<or> (any_term_in [''date'', ''time'', ''period''] (join '' '' (map lower (df_columns df)))
            \<and> any_term_in [''revenue'', ''amount'', ''value'']
                 (join '' '' (map lower (df_columns df)))
            \<and> df_len df \<le> 24)"
  shows "detect_data_pattern df c = ''monthly_trends''"
proof -
  define j where "j = join '' '' (map lower (df_columns df))"
  have nb: "\<not> any_term_in bridge_terms j"
    and ncr: "\<not> (any_term_in customer_terms j \<and> any_term_in revenue_terms j)"
    and ng: "\<not> any_term_in geo_terms j" and nq: "\<not> any_term_in quarterly_terms j"
    using assms(1-4) by (simp_all add: j_def)
  have m: "(str_in ''month_label'' j \<and> any_term_in [''revenue'', ''amount'', ''value''] j)
       \<or> (str_in ''variance'' j \<and> any_term_in [''revenue'', ''amount''] j)
       \<or> (any_term_in time_terms j \<and> any_term_in [''revenue'', ''amount'', ''value''] j
            \<and> df_len df \<le> 24)"
    using assms(5) by (simp add: j_def time_terms_def)
  have "detect_data_pattern df c =
     (if any_term_in bridge_terms j then ''revenue_bridge''
      else if any_term_in customer_terms j \<and> any_term_in revenue_terms j
        then ''customer_analysis''
      else if any_term_in geo_terms j then ''geographic''
      else if any_term_in quarterly_terms j then ''quarterly''
      else if any_term_in monthly_terms j then ''monthly_trends''
      else if str_in ''month_label'' j \<and> any_term_in [''revenue'', ''amount'', ''value''] j
        then ''monthly_trends''
      else if str_in ''variance'' j \<and> any_term_in [''revenue'', ''amount''] j
        then ''monthly_trends''
      else if any_term_in time_terms j \<and> any_term_in [''revenue'', ''amount'', ''value''] j
              \<and> df_len df \<le> 24
        then ''monthly_trends''
      else ''default'')"
    by (simp add: detect_data_pattern_def Let_def j_def)
  also have "\<dots> = ''monthly_trends''"
    using nb ncr ng nq m by presburger
  finally show ?thesis .
qed

lemma joined_monthly_frame:
  "join '' '' (map lower (df_columns monthly_frame)) = ''month_label revenue''"
  by (simp add: monthly_frame_def lower_def lower_char_def)

lemma joined_variance_frame:
  "join '' '' (map lower (df_columns variance_frame)) = ''variance amount''"
  by (simp add: variance_frame_def lower_def lower_char_def)

lemma joined_period_frame:
  "join '' '' (map lower (df_columns period_frame)) = ''period value''"
  by (simp add: period_frame_def lower_def lower_char_def)

lemma no_higher_rule_monthly:
  "\<not> any_term_in bridge_terms ''month_label revenue''"
  "\<not> (any_term_in customer_terms ''month_label revenue''
       \<and> any_term_in revenue_terms ''month_label revenue'')"
  "\<not> any_term_in geo_terms ''month_label revenue''"
  "\<not> any_term_in quarterly_terms ''month_label revenue''"
  by code_simp+

lemma no_higher_rule_variance:
  "\<not> any_term_in bridge_terms ''variance amount''"
  "\<not> (any_term_in customer_terms ''variance amount''
       \<and> any_term_in revenue_terms ''variance amount'')"
  "\<not> any_term_in geo_terms ''variance amount''"
  "\<not> any_term_in quarterly_terms ''variance amount''"
  by code_simp+

lemma no_higher_rule_period:
  "\<not> any_term_in bridge_terms ''period value''"
  "\<not> (any_term_in customer_terms ''period value''
       \<and> any_term_in revenue_terms ''period value'')"
  "\<not> any_term_in geo_terms ''period value''"
  "\<not> any_term_in quarterly_terms ''period value''"
  by code_simp+

lemma monthly_rule_holds:
  "str_in ''month_label'' ''month_label revenue''
     \<and> any_term_in [''revenue'', ''amount'', ''value''] ''month_label revenue''"
  "str_in ''variance'' ''variance amount''
     \<and> any_term_in [''revenue'', ''amount''] ''variance amount''"
  "any_term_in [''date'', ''time'', ''period''] ''period value''
     \<and> any_term_in [''revenue'', ''amount'', ''value''] ''period value''"
  by code_simp+

theorem pattern_monthly_rules_witness:
  "df_len monthly_frame = 12
   \<and> detect_data_pattern monthly_frame ''monthly'' = ''monthly_trends''
   \<and> df_len variance_frame = 40
   \<and> detect_data_pattern variance_frame ''general'' = ''monthly_trends''
   \<and> df_len period_frame \<le> 24
   \<and> detect_data_pattern period_frame ''general'' = ''monthly_trends''"
proof -
  have l1: "df_len monthly_frame = 12" by (simp add: df_len_def monthly_frame_def)
  have l2: "df_len variance_frame = 40" by (simp add: df_len_def variance_frame_def)
  have l3: "df_len period_frame \<le> 24" by (simp add: df_len_def period_frame_def)
  have 1: "detect_data_pattern monthly_frame ''monthly'' = ''monthly_trends''"
    by (rule pattern_monthly_rules)
       (simp_all only: joined_monthly_frame no_higher_rule_monthly monthly_rule_holds
          simp_thms)
  have 2: "detect_data_pattern variance_frame ''general'' = ''monthly_trends''"
    by (rule pattern_monthly_rules)
       (simp_all only: joined_variance_frame no_higher_rule_variance monthly_rule_holds
          simp_thms)
  have 3: "detect_data_pattern period_frame ''general'' = ''monthly_trends''"
    by (rule pattern_monthly_rules)
       (simp_all only: joined_period_frame no_higher_rule_period monthly_rule_holds l3
          simp_thms)
  from l1 l2 l3 1 2 3 show ?thesis by simp
qed

section \<open>The cache: expiry and keys\<close>

text \<open>
  C2. After \<open>set(k, v)\<close> at time \<open>stored\<close>, a \<open>get(k)\<close> at time \<open>now\<close> returns \<open>v\<close> and
  leaves the store as it is when \<open>now - stored\<close> is less than the time-to-live; when it
  is not, the lookup returns \<open>None\<close> and deletes the entry, so a following lookup of the
  key, at the same or any other time \<open>later\<close>, returns \<open>None\<close> as well. This holds of the
  analysis cache and of the schema cache. Times are in microseconds, the time-to-live in
  seconds.
\<close>

theorem cache_ttl_correct:
  "(now - stored < cache_ttl cm * 1000000 \<longrightarrow>
      get_analysis_cache (set_analysis_cache cm stored k v) now k
        = (Some v, set_analysis_cache cm stored k v)
    \<and> get_schema_cache (set_schema_cache cm stored k s) now k
        = (Some s, set_schema_cache cm stored k s))
   \<and> (cache_ttl cm * 1000000 \<le> now - stored \<longrightarrow>
      fst (get_analysis_cache (set_analysis_cache cm stored k v) now k) = None
    \<and> analysis_cache (snd (get_analysis_cache (set_analysis_cache cm stored k v) now k)) k
        = None
    \<and> fst (get_analysis_cache
             (snd (get_analysis_cache (set_analysis_cache cm stored k v) now k)) later k)
        = None
    \<and> fst (get_schema_cache (set_schema_cache cm stored k s) now k) = None
    \<and> schema_cache (snd (get_schema_cache (set_schema_cache cm stored k s) now k)) k = None
    \<and> fst (get_schema_cache
             (snd (get_schema_cache (set_schema_cache cm stored k s) now k)) later k)
        = None)"
  by (simp add: get_analysis_cache_def set_analysis_cache_def get_schema_cache_def
        set_schema_cache_def)

theorem cache_ttl_correct_witness:
  "cache_ttl fresh_cache = 300
   \<and> get_analysis_cache (set_analysis_cache fresh_cache 0 ''k'' scenario_data) 299999999 ''k''
       = (Some scenario_data, set_analysis_cache fresh_cache 0 ''k'' scenario_data)
   \<and> get_schema_cache (set_schema_cache fresh_cache 0 ''k'' scenario_schema) 299999999 ''k''
       = (Some scenario_schema, set_schema_cache fresh_cache 0 ''k'' scenario_schema)
   \<and> fst (get_analysis_cache (set_analysis_cache fresh_cache 0 ''k'' scenario_data)
            300000000 ''k'') = None
   \<and> fst (get_analysis_cache
            (snd (get_analysis_cache (set_analysis_cache fresh_cache 0 ''k'' scenario_data)
                    300000000 ''k''))
            300000000 ''k'') = None
   \<and> fst (get_schema_cache (set_schema_cache fresh_cache 0 ''k'' scenario_schema)
            300000000 ''k'') = None
   \<and> fst (get_schema_cache
            (snd (get_schema_cache (set_schema_cache fresh_cache 0 ''k'' scenario_schema)
                    300000000 ''k''))
            300000000 ''k'') = None"
proof -
  have ttl: "cache_ttl fresh_cache = 300"
    by (simp add: fresh_cache_def new_cache_manager_def)
  have early: "(299999999::int) - 0 < cache_ttl fresh_cache * 1000000"
    and late: "cache_ttl fresh_cache * 1000000 \<le> (300000000::int) - 0"
    by (simp_all add: ttl)
  from cache_ttl_correct[where now = 299999999 and stored = 0 and cm = fresh_cache
      and k = "''k''" and v = scenario_data and s = scenario_schema] early
    cache_ttl_correct[where now = 300000000 and stored = 0 and cm = fresh_cache
      and k = "''k''" and v = scenario_data and s = scenario_schema
      and later = 300000000] late ttl
  show ?thesis by blast
qed

text \<open>
  C3. For a non-empty list, the key \<open>get_cache_key\<close> derives is the first eight
  characters of a digest of the length and the first element, an underscore, and the
  first eight characters of a digest of the context arguments; when the digest function
  yields 32 hexadecimal digits, as \<open>hexdigest\<close> does, the key is two fragments of eight
  hexadecimal digits around the separator. Hence two non-empty lists of the same length
  and the same first element get the same key under the same arguments.
\<close>

theorem cache_key_of_length_and_first:
  assumes "rs1 \<noteq> []" and "rs2 \<noteq> []" and "length rs1 = length rs2" and "hd rs1 = hd rs2"
  shows "get_cache_key md5 str (Records rs1) args = get_cache_key md5 str (Records rs2) args
     \<and> get_cache_key md5 str (Records rs1) args
         = take 8 (md5 (str (PyInt (int (length rs1))) @ str (PyRecord (hd rs1))))
           @ ''_'' @ take 8 (md5 (str (PyArgs args)))
     \<and> (is_hexdigest md5 \<longrightarrow>
          length (get_cache_key md5 str (Records rs1) args) = 17
        \<and> get_cache_key md5 str (Records rs1) args ! 8 = CHR ''_''
        \<and> set (take 8 (get_cache_key md5 str (Records rs1) args)) \<subseteq> set hexdigits
        \<and> set (drop 9 (get_cache_key md5 str (Records rs1) args)) \<subseteq> set hexdigits)"
proof -
  obtain r1 t1 where 1: "rs1 = r1 # t1" using assms(1) by (cases rs1) auto
  obtain r2 t2 where 2: "rs2 = r2 # t2" using assms(2) by (cases rs2) auto
  have k1: "get_cache_key md5 str (Records rs1) args
         = take 8 (md5 (str (PyInt (int (length rs1))) @ str (PyRecord (hd rs1))))
           @ ''_'' @ take 8 (md5 (str (PyArgs args)))"
    by (simp add: get_cache_key_def 1)
  have k2: "get_cache_key md5 str (Records rs2) args
         = take 8 (md5 (str (PyInt (int (length rs2))) @ str (PyRecord (hd rs2))))
           @ ''_'' @ take 8 (md5 (str (PyArgs args)))"
    by (simp add: get_cache_key_def 2)
  have same: "get_cache_key md5 str (Records rs1) args
      = get_cache_key md5 str (Records rs2) args"
    unfolding k1 k2 using assms(3,4) by simp
  have hex: "length (get_cache_key md5 str (Records rs1) args) = 17
        \<and> get_cache_key md5 str (Records rs1) args ! 8 = CHR ''_''
        \<and> set (take 8 (get_cache_key md5 str (Records rs1) args)) \<subseteq> set hexdigits
        \<and> set (drop 9 (get_cache_key md5 str (Records rs1) args)) \<subseteq> set hexdigits"
    if h: "is_hexdigest md5"
  proof -
    let ?a = "take 8 (md5 (str (PyInt (int (length rs1))) @ str (PyRecord (hd rs1))))"
    let ?b = "take 8 (md5 (str (PyArgs args)))"
    have la: "length ?a = 8" and lb: "length ?b = 8"
      using h by (simp_all add: is_hexdigest_def)
    have sa: "set ?a \<subseteq> set hexdigits" and sb: "set ?b \<subseteq> set hexdigits"
      using h set_take_subset unfolding is_hexdigest_def by (meson subset_trans)+
    show ?thesis
      unfolding k1 using la lb sa sb by (simp add: nth_append)
  qed
  from same k1 hex show ?thesis by blast
qed

lemma md5_stub_hexdigest: "is_hexdigest md5_stub"
proof -
  have "set (map (\<lambda>c. hexdigits ! (of_char c mod 16)) x) \<subseteq> set hexdigits" for x :: string
  proof -
    have "length hexdigits = 16" by (simp add: hexdigits_def)
    then have "hexdigits ! (of_char c mod 16) \<in> set hexdigits" for c :: char
      by (simp add: nth_mem)
    then show ?thesis by auto
  qed
  moreover have "set (replicate 32 (CHR ''0'')) \<subseteq> set hexdigits"
    by (simp add: hexdigits_def)
  ultimately have "set (md5_stub x) \<subseteq> set hexdigits" for x
    unfolding md5_stub_def using set_take_subset
    by (metis (no_types, lifting) Un_least set_append subset_trans)
  moreover have "length (md5_stub x) = 32" for x
    by (simp add: md5_stub_def)
  ultimately show ?thesis by (simp add: is_hexdigest_def)
qed

theorem cache_key_of_length_and_first_witness:
  "scenario_rows \<noteq> lookalike_rows
   \<and> length scenario_rows = length lookalike_rows
   \<and> hd scenario_rows = hd lookalike_rows
   \<and> get_cache_key md5_stub str_stub (Records scenario_rows) [Some ''tab'']
       = get_cache_key md5_stub str_stub (Records lookalike_rows) [Some ''tab'']
   \<and> length (get_cache_key md5_stub str_stub (Records scenario_rows) [Some ''tab'']) = 17
   \<and> get_cache_key md5_stub str_stub (Records scenario_rows) [Some ''tab''] ! 8 = CHR ''_''"
proof -
  have d: "scenario_rows \<noteq> lookalike_rows"
    and n1: "scenario_rows \<noteq> []" and n2: "lookalike_rows \<noteq> []"
    and l: "length scenario_rows = length lookalike_rows"
    and h: "hd scenario_rows = hd lookalike_rows"
    by (simp_all add: scenario_rows_def lookalike_rows_def)
  from cache_key_of_length_and_first[OF n1 n2 l h, of md5_stub str_stub "[Some ''tab'']"]
    md5_stub_hexdigest d l h
  show ?thesis by blast
qed

section \<open>The confidence score\<close>

lemma total_metrics_eq:
  "sum_list (map (\<lambda>v. int (length v)) (metrics_values m)) * 5
     = 5 * (int (length (revenue_columns m)) + int (length (date_columns m))
            + int (length (percentage_columns m)) + int (length (id_columns m))
            + int (length (categorical_columns m)))"
  by (simp add: metrics_values_def)

lemma calculate_confidence_eq: "calculate_confidence sch = confidence_spec sch"
proof -
  have c: "(if columns sch \<noteq> [] then s + min 20 (int (length (columns sch)) * 2) else s)
      = s + min 20 (2 * int (length (columns sch)))" for s :: int
    by (simp add: mult.commute)
  show ?thesis
    unfolding calculate_confidence_def confidence_spec_def Let_def total_metrics_eq c
    by simp
qed

lemma confidence_spec_bounds: "0 \<le> confidence_spec sch \<and> confidence_spec sch \<le> 100"
  by (simp add: confidence_spec_def)

lemma build_schema_confidence:
  "build_schema d = Inr sch \<Longrightarrow> confidence_score sch = confidence_spec sch"
  by (auto simp add: build_schema_def Let_def calculate_confidence_eq confidence_spec_def
        split: sum.splits)

section \<open>The analyzer returns\<close>

lemma analyze_columns_records:
  "analyze_columns d \<noteq> [] \<Longrightarrow> \<exists>rs. d = Records rs"
  by (cases d) simp_all

lemma identify_step_records:
  "\<exists>m'. identify_step (Records rs) item m = Inr m'"
  by (simp add: identify_step_def Let_def)

lemma identify_loop_records:
  "\<exists>m'. identify_loop (Records rs) items m = Inr m'"
proof (induction items arbitrary: m)
  case Nil
  then show ?case by simp
next
  case (Cons item items)
  obtain m1 where "identify_step (Records rs) item m = Inr m1"
    using identify_step_records by blast
  then show ?case using Cons.IH[of m1] by simp
qed

lemma identify_metrics_total: "\<exists>m. identify_metrics d = Inr m"
proof (cases "analyze_columns d = []")
  case True
  then show ?thesis by (simp add: identify_metrics_def)
next
  case False
  then obtain rs where "d = Records rs" using analyze_columns_records by blast
  then show ?thesis using identify_loop_records by (simp add: identify_metrics_def)
qed

lemma build_schema_total: "\<exists>sch. build_schema d = Inr sch"
proof -
  obtain m where "identify_metrics d = Inr m" using identify_metrics_total by blast
  then show ?thesis by (simp add: build_schema_def Let_def)
qed



lemma build_scenario: "build_schema scenario_data = Inr scenario_schema"
  by code_simp

lemma analyze_scenario:
  "analyze_json_schema md5_stub str_stub fresh_cache 0 1 scenario_data None
     = (Inr (Some scenario_schema),
        set_schema_cache fresh_cache 1
          (get_cache_key md5_stub str_stub scenario_data [None]) scenario_schema)"
proof -
  have "truthy scenario_data" by (simp add: scenario_data_def scenario_rows_def)
  moreover have "get_schema_cache fresh_cache 0 key = (None, fresh_cache)" for key
    by (simp add: get_schema_cache_def fresh_cache_def new_cache_manager_def)
  ultimately show ?thesis
    by (simp add: analyze_json_schema_def Let_def build_scenario)
qed



section \<open>The score of every schema the analyzer returns\<close>

lemma get_schema_cache_ok:
  "schema_cache_ok cm \<Longrightarrow> schema_cache_ok (snd (get_schema_cache cm t k))"
  by (auto simp add: schema_cache_ok_def get_schema_cache_def split: option.splits)

lemma get_schema_cache_hit:
  "schema_cache_ok cm \<Longrightarrow> fst (get_schema_cache cm t k) = Some s
   \<Longrightarrow> confidence_score s = confidence_spec s"
  by (auto simp add: schema_cache_ok_def get_schema_cache_def split: option.splits if_splits)

lemma set_schema_cache_ok:
  "schema_cache_ok cm \<Longrightarrow> confidence_score s = confidence_spec s
   \<Longrightarrow> schema_cache_ok (set_schema_cache cm t k s)"
  by (auto simp add: schema_cache_ok_def set_schema_cache_def)

text \<open>
  C9. The score of a schema the analyzer returns is 30 if the data type is not
  \<open>unknown\<close>, plus the smaller of 20 and twice the number of profiled columns, plus the
  smaller of 30 and five times the number of memberships in the five metric groups, plus
  20 if there is a suggested visualization, clamped at 100; so it lies between 0 and 100.
  This holds of a schema assembled by the call and, the schema cache holding only
  schemas the analyzer stored, of one answered from the cache; the cache the call leaves
  holds only such schemas again.
\<close>

theorem confidence_score_formula:
  assumes "schema_cache_ok cm"
    and "analyze_json_schema md5 str cm tg ts d k = (Inr (Some sch), cm')"
  shows "confidence_score sch = confidence_spec sch
     \<and> 0 \<le> confidence_score sch \<and> confidence_score sch \<le> 100
     \<and> schema_cache_ok cm'"
proof -
  have t: "truthy d"
    using assms(2) by (auto simp add: analyze_json_schema_def split: if_splits)
  define key where "key = get_cache_key md5 str d [k]"
  show ?thesis
  proof (cases "fst (get_schema_cache cm tg key)")
    case None
    obtain s where s: "build_schema d = Inr s" using build_schema_total by blast
    from None s t assms(2) have "sch = s"
      and "cm' = set_schema_cache (snd (get_schema_cache cm tg key)) ts key s"
      by (auto simp add: analyze_json_schema_def Let_def key_def)
    moreover have "confidence_score s = confidence_spec s"
      using s by (rule build_schema_confidence)
    ultimately show ?thesis
      using assms(1) confidence_spec_bounds[of s]
      by (simp add: set_schema_cache_ok get_schema_cache_ok)
  next
    case (Some s)
    with t assms(2) have "sch = s" and "cm' = snd (get_schema_cache cm tg key)"
      by (auto simp add: analyze_json_schema_def Let_def key_def)
    moreover have "confidence_score s = confidence_spec s"
      using assms(1) Some by (rule get_schema_cache_hit)
    ultimately show ?thesis
      using assms(1) confidence_spec_bounds[of s] by (simp add: get_schema_cache_ok)
  qed
qed

theorem confidence_score_formula_witness:
  "schema_cache_ok fresh_cache
   \<and> fst (analyze_json_schema md5_stub str_stub fresh_cache 0 1 scenario_data None)
       = Inr (Some scenario_schema)
   \<and> confidence_score scenario_schema = confidence_spec scenario_schema
   \<and> confidence_score scenario_schema = 71"
proof -
  have ok: "schema_cache_ok fresh_cache"
    by (simp add: schema_cache_ok_def fresh_cache_def new_cache_manager_def)
  have "confidence_score scenario_schema = 71" by (simp add: scenario_schema_def)
  with confidence_score_formula[OF ok analyze_scenario] ok analyze_scenario
  show ?thesis by simp
qed

section \<open>Data type detection\<close>

lemma set_add_keys: "set (add_keys seen ks) = set seen \<union> set ks"
  by (induction ks arbitrary: seen) auto

lemma set_union_keys: "set (union_keys seen rs) = set seen \<union> column_names rs"
  by (induction rs arbitrary: seen) (auto simp add: column_names_def set_add_keys)

lemma distinct_add_keys: "distinct seen \<Longrightarrow> distinct (add_keys seen ks)"
  by (induction ks arbitrary: seen) auto

lemma distinct_union_keys: "distinct seen \<Longrightarrow> distinct (union_keys seen rs)"
  by (induction rs arbitrary: seen) (auto simp add: distinct_add_keys)

lemma sublist_across_separator:
  assumes "s \<notin> set t" and "sublist t (xs @ s # ys)"
  shows "sublist t xs \<or> sublist t ys"
proof -
  from assms(2) consider "sublist t xs" | "sublist t (s # ys)"
    | t1 t2 where "t = t1 @ t2" "suffix t1 xs" "prefix t2 (s # ys)"
    unfolding sublist_append by blast
  then show ?thesis
  proof cases
    case 1
    then show ?thesis by simp
  next
    case 2
    then have "prefix t (s # ys) \<or> sublist t ys" by (simp add: sublist_Cons_right)
    moreover have "sublist t ys" if "prefix t (s # ys)"
    proof (cases t)
      case Nil
      then show ?thesis by simp
    next
      case (Cons a as)
      with that have "a = s" by simp
      with Cons assms(1) show ?thesis by simp
    qed
    ultimately show ?thesis by blast
  next
    case 3
    show ?thesis
    proof (cases t2)
      case Nil
      with 3 show ?thesis by simp
    next
      case (Cons a as)
      with 3(3) have "a = s" by simp
      with Cons 3(1) assms(1) show ?thesis by simp
    qed
  qed
qed

lemma sublist_join_space:
  assumes "CHR '' '' \<notin> set t" and "t \<noteq> []"
  shows "sublist t (join '' '' cols) = (\<exists>c \<in> set cols. sublist t c)"
proof (induction "'' ''" cols rule: join.induct)
  case 1
  then show ?case using assms(2) by simp
next
  case (2 x)
  then show ?case by simp
next
  case (3 x y ys)
  have "sublist t (join '' '' (x # y # ys)) = sublist t (x @ CHR '' '' # join '' '' (y # ys))"
    by simp
  also have "\<dots> = (sublist t x \<or> sublist t (join '' '' (y # ys)))"
  proof
    assume "sublist t (x @ CHR '' '' # join '' '' (y # ys))"
    with assms(1) show "sublist t x \<or> sublist t (join '' '' (y # ys))"
      by (rule sublist_across_separator)
  next
    assume "sublist t x \<or> sublist t (join '' '' (y # ys))"
    then show "sublist t (x @ CHR '' '' # join '' '' (y # ys))"
    proof
      assume "sublist t x"
      then show ?thesis by (meson sublist_append)
    next
      assume "sublist t (join '' '' (y # ys))"
      then have "sublist t (CHR '' '' # join '' '' (y # ys))" by (simp add: sublist_Cons_right)
      then show ?thesis by (meson sublist_append)
    qed
  qed
  also have "\<dots> = (\<exists>c \<in> set (x # y # ys). sublist t c)"
    using 3 by simp
  finally show ?case .
qed

lemma any_term_in_names:
  assumes "spaceless kws"
  shows "any_term_in kws (join '' '' (map lower cols)) = names_mention (set cols) kws"
proof -
  have "str_in t (join '' '' (map lower cols)) = (\<exists>n \<in> set cols. sublist t (lower n))"
    if "t \<in> set kws" for t
  proof -
    from that assms have "CHR '' '' \<notin> set t" "t \<noteq> []"
      by (auto simp add: spaceless_def list_all_iff)
    then show ?thesis by (simp add: str_in_def sublist_join_space)
  qed
  then show ?thesis
    unfolding any_term_in_def names_mention_def list_ex_iff by blast
qed

lemma spaceless_keywords:
  "spaceless [''quarter'', ''q3'', ''q4'', ''qoq'']"
  "spaceless [''churn'', ''expansion'', ''bridge'']"
  "spaceless [''country'', ''region'', ''geographic'']"
  "spaceless [''customer'', ''client'', ''concentration'']"
  "spaceless [''month'', ''monthly'', ''mom'']"
  by (simp_all add: spaceless_def)

lemma detect_data_type_nonempty:
  assumes "rs \<noteq> []"
  shows "detect_data_type (Records rs) = data_type_of_names (column_names (take 5 rs))"
proof -
  have tk: "take (min 5 (length rs)) rs = take 5 rs"
    by (cases "5 \<le> length rs") (simp_all add: min_def)
  show ?thesis
    using assms
    by (simp add: pd_DataFrame_def Let_def any_term_in_names spaceless_keywords
          set_union_keys tk data_type_of_names_def)
qed

text \<open>
  C4. \<open>_detect_data_type\<close> answers \<open>unknown\<close> for the empty list and for every input
  that is not a list. For a non-empty list of records it looks at the column names that
  occur in the first five records at most, in lower case, and answers the first category
  in the order quarterly, bridge, geographic, customer, monthly one of whose keywords a
  name contains, and \<open>general\<close> when there is none.
\<close>

theorem detect_data_type_refines_spec: "detect_data_type d = detectDataType_spec d"
proof (cases d)
  case (Records rs)
  show ?thesis
  proof (cases rs)
    case Nil
    with Records show ?thesis by (simp add: detectDataType_spec_def)
  next
    case (Cons r rs')
    then have "rs \<noteq> []" by simp
    then have "detect_data_type (Records rs) = data_type_of_names (column_names (take 5 rs))"
      by (rule detect_data_type_nonempty)
    moreover have "detectDataType_spec (Records rs) = data_type_of_names (column_names (take 5 rs))"
      unfolding detectDataType_spec_def Cons by simp
    ultimately show ?thesis using Records by simp
  qed
next
  case (Object kvs)
  then show ?thesis by (simp add: detectDataType_spec_def)
next
  case (Scalar a)
  then show ?thesis by (simp add: detectDataType_spec_def)
qed

section \<open>Metric groups: one group for each column\<close>

lemma distinct_analyze_columns_loop:
  "distinct (map fst acc) \<Longrightarrow> analyze_columns_loop df cols acc = Inr ca
   \<Longrightarrow> distinct (map fst ca)"
proof (induction cols arbitrary: acc)
  case Nil
  then show ?case by simp
next
  case (Cons col cols)
  show ?case
  proof (cases "dropna (df_col df col) = []")
    case True
    with Cons.prems(2) have "analyze_columns_loop df cols acc = Inr ca"
      by (simp add: Let_def)
    with Cons.prems(1) show ?thesis by (rule Cons.IH)
  next
    case False
    with Cons.prems(2) obtain a where
      "analyze_columns_loop df cols (AList.update col a acc) = Inr ca"
      by (auto simp add: Let_def split: sum.splits)
    moreover have "distinct (map fst (AList.update col a acc))"
      using Cons.prems(1) by (rule distinct_update)
    ultimately show ?thesis using Cons.IH by blast
  qed
qed

lemma distinct_analyze_columns: "distinct (map fst (analyze_columns d))"
proof (cases d)
  case (Records rs)
  then show ?thesis
    using distinct_analyze_columns_loop[of "[]"]
    by (auto simp add: pd_DataFrame_def split: sum.splits)
qed simp_all

lemma any_term_in_lower: "any_term_in ts (lower col) = name_has col ts"
  by (simp add: any_term_in_def name_has_def str_in_def)

lemma identify_step_members:
  assumes "identify_step (Records rs) (col, a) m = Inr m'"
  shows "set (members m' g)
     = set (members m g) \<union> (if classify_spec (length rs) col a = Some g then {col} else {})"
proof -
  define r where "r = name_has col [''revenue'', ''amount'', ''value'', ''price'', ''cost'']"
  define dt where "dt = name_has col [''date'', ''month'', ''quarter'', ''year'', ''time'']"
  define p where "p = name_has col [''percent'', ''%'', ''rate'', ''ratio'']"
  define i where "i = name_has col [''id'', ''name'', ''customer'', ''client'']"
  define c where "c = (rat_of_nat (unique_count a) < rat_of_nat (length rs) * (1 / 2))"
  have cl: "classify_spec (length rs) col a =
     (if r then (if is_numeric a then Some Revenue else None)
      else if dt then Some Date
      else if p then Some Percentage
      else if i then Some Identifier
      else if \<not> is_numeric a \<and> c then Some Categorical
      else None)"
    by (simp add: classify_spec_def r_def dt_def p_def i_def c_def mult.commute)
  have st: "identify_step (Records rs) (col, a) m =
     (if r then (if is_numeric a then Inr (m\<lparr>revenue_columns := revenue_columns m @ [col]\<rparr>)
                 else Inr m)
      else if dt then Inr (m\<lparr>date_columns := date_columns m @ [col]\<rparr>)
      else if p then Inr (m\<lparr>percentage_columns := percentage_columns m @ [col]\<rparr>)
      else if i then Inr (m\<lparr>id_columns := id_columns m @ [col]\<rparr>)
      else if is_numeric a then Inr m
      else if c then Inr (m\<lparr>categorical_columns := categorical_columns m @ [col]\<rparr>)
      else Inr m)"
    by (simp add: identify_step_def Let_def any_term_in_lower r_def dt_def p_def i_def c_def)
  consider (rev_num) "r" "is_numeric a" | (rev_other) "r" "\<not> is_numeric a"
    | (date) "\<not> r" "dt" | (pct) "\<not> r" "\<not> dt" "p" | (ident) "\<not> r" "\<not> dt" "\<not> p" "i"
    | (num) "\<not> r" "\<not> dt" "\<not> p" "\<not> i" "is_numeric a"
    | (cat) "\<not> r" "\<not> dt" "\<not> p" "\<not> i" "\<not> is_numeric a" "c"
    | (none) "\<not> r" "\<not> dt" "\<not> p" "\<not> i" "\<not> is_numeric a" "\<not> c"
    by blast
  then show ?thesis
  proof cases
    case rev_num
    with assms have "m' = m\<lparr>revenue_columns := revenue_columns m @ [col]\<rparr>"
      unfolding st by simp
    moreover from rev_num have "classify_spec (length rs) col a = Some Revenue"
      unfolding cl by simp
    ultimately show ?thesis by (cases g) auto
  next
    case rev_other
    with assms have "m' = m" unfolding st by simp
    moreover from rev_other have "classify_spec (length rs) col a = None"
      unfolding cl by simp
    ultimately show ?thesis by simp
  next
    case date
    with assms have "m' = m\<lparr>date_columns := date_columns m @ [col]\<rparr>"
      unfolding st by simp
    moreover from date have "classify_spec (length rs) col a = Some Date"
      unfolding cl by simp
    ultimately show ?thesis by (cases g) auto
  next
    case pct
    with assms have "m' = m\<lparr>percentage_columns := percentage_columns m @ [col]\<rparr>"
      unfolding st by simp
    moreover from pct have "classify_spec (length rs) col a = Some Percentage"
      unfolding cl by simp
    ultimately show ?thesis by (cases g) auto
  next
    case ident
    with assms have "m' = m\<lparr>id_columns := id_columns m @ [col]\<rparr>"
      unfolding st by simp
    moreover from ident have "classify_spec (length rs) col a = Some Identifier"
      unfolding cl by simp
    ultimately show ?thesis by (cases g) auto
  next
    case num
    with assms have "m' = m" unfolding st by simp
    moreover from num have "classify_spec (length rs) col a = None"
      unfolding cl by simp
    ultimately show ?thesis by simp
  next
    case cat
    with assms have "m' = m\<lparr>categorical_columns := categorical_columns m @ [col]\<rparr>"
      unfolding st by simp
    moreover from cat have "classify_spec (length rs) col a = Some Categorical"
      unfolding cl by simp
    ultimately show ?thesis by (cases g) auto
  next
    case none
    with assms have "m' = m" unfolding st by simp
    moreover from none have "classify_spec (length rs) col a = None"
      unfolding cl by simp
    ultimately show ?thesis by simp
  qed
qed

lemma identify_loop_members:
  assumes "identify_loop (Records rs) items m = Inr m'"
  shows "set (members m' g)
     = set (members m g) \<union> {col. \<exists>a. (col, a) \<in> set items \<and> classify_spec (length rs) col a = Some g}"
  using assms
proof (induction items arbitrary: m)
  case Nil
  then show ?case by simp
next
  case (Cons item items)
  obtain col a where item: "item = (col, a)" by (cases item)
  from Cons.prems obtain m1 where
    s: "identify_step (Records rs) (col, a) m = Inr m1"
    and l: "identify_loop (Records rs) items m1 = Inr m'"
    by (auto simp add: item split: sum.splits)
  have "set (members m' g)
     = set (members m1 g) \<union> {c. \<exists>b. (c, b) \<in> set items \<and> classify_spec (length rs) c b = Some g}"
    using l by (rule Cons.IH)
  also have "set (members m1 g)
     = set (members m g) \<union> (if classify_spec (length rs) col a = Some g then {col} else {})"
    using s by (rule identify_step_members)
  finally show ?case by (auto simp add: item)
qed

lemma members_empty: "members empty_metrics g = []"
  by (cases g) (simp_all add: empty_metrics_def)

lemma identify_metrics_members_set:
  assumes "identify_metrics (Records rs) = Inr m"
  shows "set (members m g)
     = {c. \<exists>b. (c, b) \<in> set (analyze_columns (Records rs))
               \<and> classify_spec (length rs) c b = Some g}"
proof -
  have "identify_loop (Records rs) (analyze_columns (Records rs)) empty_metrics = Inr m"
    using assms by (simp only: identify_metrics_def)
  then have "set (members m g)
     = set (members empty_metrics g)
       \<union> {c. \<exists>b. (c, b) \<in> set (analyze_columns (Records rs))
                  \<and> classify_spec (length rs) c b = Some g}"
    by (rule identify_loop_members)
  then show ?thesis by (simp only: members_empty list.set Un_empty_left)
qed

lemma identify_metrics_members:
  assumes "identify_metrics (Records rs) = Inr m"
    and "(col, a) \<in> set (analyze_columns (Records rs))"
  shows "(col \<in> set (members m g)) = (classify_spec (length rs) col a = Some g)"
proof
  assume "col \<in> set (members m g)"
  then obtain b where b: "(col, b) \<in> set (analyze_columns (Records rs))"
    and c: "classify_spec (length rs) col b = Some g"
    unfolding identify_metrics_members_set[OF assms(1)] by blast
  have "b = a"
    using distinct_analyze_columns b assms(2) by (rule eq_key_imp_eq_value)
  with c show "classify_spec (length rs) col a = Some g" by simp
next
  assume "classify_spec (length rs) col a = Some g"
  with assms(2) show "col \<in> set (members m g)"
    unfolding identify_metrics_members_set[OF assms(1)] by blast
qed

lemma identify_metrics_profiled:
  assumes "identify_metrics d = Inr m" and "col \<in> set (members m g)"
  shows "\<exists>rs a. d = Records rs \<and> (col, a) \<in> set (analyze_columns d)
           \<and> classify_spec (length rs) col a = Some g"
proof (cases "analyze_columns d = []")
  case True
  with assms(1) have "m = empty_metrics" by (simp add: identify_metrics_def)
  with assms(2) show ?thesis by (simp add: members_empty)
next
  case False
  then obtain rs where r: "d = Records rs" using analyze_columns_records by blast
  from assms(2) obtain b where "(col, b) \<in> set (analyze_columns (Records rs))"
    and "classify_spec (length rs) col b = Some g"
    unfolding identify_metrics_members_set[OF assms(1)[unfolded r]] by blast
  with r show ?thesis by blast
qed

lemma members_disjoint:
  assumes "identify_metrics d = Inr m" and "g \<noteq> g'"
  shows "set (members m g) \<inter> set (members m g') = {}"
proof (rule ccontr)
  assume "set (members m g) \<inter> set (members m g') \<noteq> {}"
  then obtain col where c: "col \<in> set (members m g)" "col \<in> set (members m g')" by blast
  from identify_metrics_profiled[OF assms(1) c(1)] obtain rs a where
    r: "d = Records rs" and a: "(col, a) \<in> set (analyze_columns d)"
    and g: "classify_spec (length rs) col a = Some g" by blast
  from identify_metrics_members[OF assms(1)[unfolded r] a[unfolded r], of g'] c(2)
  have "classify_spec (length rs) col a = Some g'" by simp
  with g assms(2) show False by simp
qed

text \<open>
  C5. In the metric groups of every input, no column name is in two of the revenue,
  date, percentage and id columns, and no categorical column is in any of those four.
  (\<open>_identify_metrics\<close> does not raise.)
\<close>

theorem metric_groups_exclusive:
  "case identify_metrics d of
     Inl e \<Rightarrow> False
   | Inr m \<Rightarrow>
       set (revenue_columns m) \<inter> set (date_columns m) = {}
     \<and> set (revenue_columns m) \<inter> set (percentage_columns m) = {}
     \<and> set (revenue_columns m) \<inter> set (id_columns m) = {}
     \<and> set (date_columns m) \<inter> set (percentage_columns m) = {}
     \<and> set (date_columns m) \<inter> set (id_columns m) = {}
     \<and> set (percentage_columns m) \<inter> set (id_columns m) = {}
     \<and> set (categorical_columns m)
         \<inter> (set (revenue_columns m) \<union> set (date_columns m)
              \<union> set (percentage_columns m) \<union> set (id_columns m)) = {}"
proof (cases "identify_metrics d")
  case (Inl e)
  then show ?thesis using identify_metrics_total[of d] by simp
next
  case (Inr m)
  have 1: "set (revenue_columns m) \<inter> set (date_columns m) = {}"
    using members_disjoint[OF Inr, of Revenue Date] by simp
  have 2: "set (revenue_columns m) \<inter> set (percentage_columns m) = {}"
    using members_disjoint[OF Inr, of Revenue Percentage] by simp
  have 3: "set (revenue_columns m) \<inter> set (id_columns m) = {}"
    using members_disjoint[OF Inr, of Revenue Identifier] by simp
  have 4: "set (date_columns m) \<inter> set (percentage_columns m) = {}"
    using members_disjoint[OF Inr, of Date Percentage] by simp
  have 5: "set (date_columns m) \<inter> set (id_columns m) = {}"
    using members_disjoint[OF Inr, of Date Identifier] by simp
  have 6: "set (percentage_columns m) \<inter> set (id_columns m) = {}"
    using members_disjoint[OF Inr, of Percentage Identifier] by simp
  have 7: "set (categorical_columns m) \<inter> set (revenue_columns m) = {}"
    using members_disjoint[OF Inr, of Categorical Revenue] by simp
  have 8: "set (categorical_columns m) \<inter> set (date_columns m) = {}"
    using members_disjoint[OF Inr, of Categorical Date] by simp
  have 9: "set (categorical_columns m) \<inter> set (percentage_columns m) = {}"
    using members_disjoint[OF Inr, of Categorical Percentage] by simp
  have 10: "set (categorical_columns m) \<inter> set (id_columns m) = {}"
    using members_disjoint[OF Inr, of Categorical Identifier] by simp
  from 7 8 9 10 have "set (categorical_columns m)
         \<inter> (set (revenue_columns m) \<union> set (date_columns m)
              \<union> set (percentage_columns m) \<union> set (id_columns m)) = {}"
    by blast
  with Inr 1 2 3 4 5 6 show ?thesis by simp
qed

text \<open>
  C6, as the code has it. Every profiled column of a list of records is in exactly the
  group the first matching rule gives it, the rules being tried on the lower-case name
  in the order revenue, date, percentage, id, categorical. A column whose name contains
  a revenue token is in the revenue columns exactly when it is numeric, and in no other
  group whether it is numeric or not. A non-numeric column whose name contains no token
  of the four lists is in the categorical columns exactly when its unique count is less
  than half the number of records.
\<close>

theorem metric_classification:
  "case identify_metrics (Records rs) of
     Inl e \<Rightarrow> False
   | Inr m \<Rightarrow>
       (\<forall>(col, a) \<in> set (analyze_columns (Records rs)).
          (\<forall>g. (col \<in> set (members m g)) = (classify_spec (length rs) col a = Some g))
        \<and> (name_has col [''revenue'', ''amount'', ''value'', ''price'', ''cost''] \<longrightarrow>
             (col \<in> set (revenue_columns m)) = is_numeric a
           \<and> col \<notin> set (date_columns m) \<and> col \<notin> set (percentage_columns m)
           \<and> col \<notin> set (id_columns m) \<and> col \<notin> set (categorical_columns m))
        \<and> (\<not> is_numeric a
           \<and> \<not> name_has col [''revenue'', ''amount'', ''value'', ''price'', ''cost'']
           \<and> \<not> name_has col [''date'', ''month'', ''quarter'', ''year'', ''time'']
           \<and> \<not> name_has col [''percent'', ''%'', ''rate'', ''ratio'']
           \<and> \<not> name_has col [''id'', ''name'', ''customer'', ''client''] \<longrightarrow>
             (col \<in> set (categorical_columns m))
               = (rat_of_nat (unique_count a) < (1 / 2) * rat_of_nat (length rs))))"
proof (cases "identify_metrics (Records rs)")
  case (Inl e)
  then show ?thesis using identify_metrics_total[of "Records rs"] by simp
next
  case (Inr m)
  have "(\<forall>g. (col \<in> set (members m g)) = (classify_spec (length rs) col a = Some g))
        \<and> (name_has col [''revenue'', ''amount'', ''value'', ''price'', ''cost''] \<longrightarrow>
             (col \<in> set (revenue_columns m)) = is_numeric a
           \<and> col \<notin> set (date_columns m) \<and> col \<notin> set (percentage_columns m)
           \<and> col \<notin> set (id_columns m) \<and> col \<notin> set (categorical_columns m))
        \<and> (\<not> is_numeric a
           \<and> \<not> name_has col [''revenue'', ''amount'', ''value'', ''price'', ''cost'']
           \<and> \<not> name_has col [''date'', ''month'', ''quarter'', ''year'', ''time'']
           \<and> \<not> name_has col [''percent'', ''%'', ''rate'', ''ratio'']
           \<and> \<not> name_has col [''id'', ''name'', ''customer'', ''client''] \<longrightarrow>
             (col \<in> set (categorical_columns m))
               = (rat_of_nat (unique_count a) < (1 / 2) * rat_of_nat (length rs)))"
    if mem: "(col, a) \<in> set (analyze_columns (Records rs))" for col a
  proof -
    have g: "(col \<in> set (members m g)) = (classify_spec (length rs) col a = Some g)" for g
      using Inr mem by (rule identify_metrics_members)
    have r: "(col \<in> set (revenue_columns m)) = (classify_spec (length rs) col a = Some Revenue)"
      using g[of Revenue] by simp
    have d: "(col \<in> set (date_columns m)) = (classify_spec (length rs) col a = Some Date)"
      using g[of Date] by simp
    have p: "(col \<in> set (percentage_columns m))
        = (classify_spec (length rs) col a = Some Percentage)"
      using g[of Percentage] by simp
    have i: "(col \<in> set (id_columns m)) = (classify_spec (length rs) col a = Some Identifier)"
      using g[of Identifier] by simp
    have c: "(col \<in> set (categorical_columns m))
        = (classify_spec (length rs) col a = Some Categorical)"
      using g[of Categorical] by simp
    have rev: "(col \<in> set (revenue_columns m)) = is_numeric a
           \<and> col \<notin> set (date_columns m) \<and> col \<notin> set (percentage_columns m)
           \<and> col \<notin> set (id_columns m) \<and> col \<notin> set (categorical_columns m)"
      if "name_has col [''revenue'', ''amount'', ''value'', ''price'', ''cost'']"
      unfolding r d p i c using that by (simp add: classify_spec_def)
    have cat: "(col \<in> set (categorical_columns m))
               = (rat_of_nat (unique_count a) < (1 / 2) * rat_of_nat (length rs))"
      if "\<not> is_numeric a"
        and "\<not> name_has col [''revenue'', ''amount'', ''value'', ''price'', ''cost'']"
        and "\<not> name_has col [''date'', ''month'', ''quarter'', ''year'', ''time'']"
        and "\<not> name_has col [''percent'', ''%'', ''rate'', ''ratio'']"
        and "\<not> name_has col [''id'', ''name'', ''customer'', ''client'']"
      unfolding c using that by (simp add: classify_spec_def)
    from g rev cat show ?thesis by blast
  qed
  with Inr show ?thesis by auto
qed

lemma segment_columns:
  "analyze_columns (Records segment_rows)
     = [(''segment'', segment_profile), (''notes'', notes_profile)]"
  by code_simp

lemma segment_identified: "identify_metrics (Records segment_rows) = Inr segment_metrics"
  by code_simp

lemma segment_classified:
  "classify_spec (length segment_rows) ''segment'' segment_profile = Some Categorical"
  "classify_spec (length segment_rows) ''notes'' notes_profile = None"
  by code_simp+

theorem metric_classification_witness:
  "(''segment'', segment_profile) \<in> set (analyze_columns (Records segment_rows))
   \<and> (''notes'', notes_profile) \<in> set (analyze_columns (Records segment_rows))
   \<and> identify_metrics (Records segment_rows) = Inr segment_metrics
   \<and> classify_spec (length segment_rows) ''segment'' segment_profile = Some Categorical
   \<and> ''segment'' \<in> set (members segment_metrics Categorical)
   \<and> classify_spec (length segment_rows) ''notes'' notes_profile = None
   \<and> ''notes'' \<notin> set (members segment_metrics Categorical)"
proof -
  have m1: "(''segment'', segment_profile) \<in> set (analyze_columns (Records segment_rows))"
    and m2: "(''notes'', notes_profile) \<in> set (analyze_columns (Records segment_rows))"
    unfolding segment_columns by simp_all
  note all = metric_classification[of segment_rows, unfolded segment_identified sum.case]
  have "\<forall>g. (''segment'' \<in> set (members segment_metrics g))
      = (classify_spec (length segment_rows) ''segment'' segment_profile = Some g)"
    by (rule bspec[OF all m1, unfolded prod.case, THEN conjunct1])
  then have "(''segment'' \<in> set (members segment_metrics Categorical))
      = (classify_spec (length segment_rows) ''segment'' segment_profile = Some Categorical)"
    by (rule spec)
  with segment_classified(1)
  have s: "''segment'' \<in> set (members segment_metrics Categorical)"
    by (simp only:)
  have "\<forall>g. (''notes'' \<in> set (members segment_metrics g))
      = (classify_spec (length segment_rows) ''notes'' notes_profile = Some g)"
    by (rule bspec[OF all m2, unfolded prod.case, THEN conjunct1])
  then have "(''notes'' \<in> set (members segment_metrics Categorical))
      = (classify_spec (length segment_rows) ''notes'' notes_profile = Some Categorical)"
    by (rule spec)
  with segment_classified(2)
  have n: "''notes'' \<notin> set (members segment_metrics Categorical)"
    by (simp only: option.distinct simp_thms)
  from m1 m2 segment_identified segment_classified s n show ?thesis
    by (intro conjI)
qed

text \<open>
  C6 as stated fails for a profiled text column whose name contains a revenue token:
  \<open>revenue_type\<close> is profiled and matches the revenue rule, and is placed in no group.
\<close>

theorem revenue_named_text_column_unplaced:
  "map fst (analyze_columns revenue_type_data) = [''revenue_type'']
   \<and> any_term_in [''revenue'', ''amount'', ''value'', ''price'', ''cost'']
        (lower ''revenue_type'')
   \<and> identify_metrics revenue_type_data = Inr empty_metrics
   \<and> revenue_columns empty_metrics = []"
  by code_simp

end
